theory Spec2Isabelle
  imports Complex_Main
begin

section \<open>JavaScript values and strings\<close>

text \<open>
  A JavaScript string is a sequence of UTF-16 code units. The messages of the program are
  Chinese, so a string is modelled as the list of its code units; an ASCII literal of the
  source is written \<open>ascii ''...''\<close>.
\<close>

type_synonym jstring = "nat list"

definition ascii :: "string \<Rightarrow> jstring" where
  "ascii cs = map of_char cs"

text \<open>
  The values a parsed JSON payload and a property read can yield. TypeScript's types are
  erased at run time, so a field typed \<open>string\<close> holds whatever the payload held, or
  \<open>undefined\<close>. The own properties of an object are an association list with one
  entry for each key.
\<close>

datatype jsvalue =
    Undefined
  | Null
  | Boolean bool
  | Number real
  | String jstring
  | Array "jsvalue list"
  | Object "(jstring \<times> jsvalue) list"

datatype exn = AbortError | NetworkError | SyntaxError | TypeError | Error jstring

text \<open>Truthiness, as \<open>||\<close> and \<open>if\<close> test it.\<close>

fun truthy :: "jsvalue \<Rightarrow> bool" where
  "truthy Undefined = False"
| "truthy Null = False"
| "truthy (Boolean b) = b"
| "truthy (Number n) = (n \<noteq> 0)"
| "truthy (String s) = (s \<noteq> [])"
| "truthy (Array vs) = True"
| "truthy (Object kvs) = True"

definition js_or :: "jsvalue \<Rightarrow> jsvalue \<Rightarrow> jsvalue" where
  "js_or a b = (if truthy a then a else b)"

text \<open>
  \<open>data.key\<close> for the attribute names the resolver reads (none of them is a property
  of a primitive or of an array): a read on \<open>null\<close> or \<open>undefined\<close> throws a
  TypeError, a read of a key the object lacks gives \<open>undefined\<close>.
\<close>

fun get_prop :: "jsvalue \<Rightarrow> jstring \<Rightarrow> exn + jsvalue" where
  "get_prop Undefined k = Inl TypeError"
| "get_prop Null k = Inl TypeError"
| "get_prop (Object kvs) k = Inr (case map_of kvs k of None \<Rightarrow> Undefined | Some v \<Rightarrow> v)"
| "get_prop v k = Inr Undefined"


section \<open>Timeout-bounded fetcher\<close>

text \<open>
  What the transport does with one request, measured in milliseconds from the call:
  the response arrives, the request fails by itself, or nothing ever happens. The platform's
  \<open>fetch\<close> rejects with an AbortError when its signal is aborted before it settles.
\<close>

datatype 'r fetch_behaviour = Responds nat 'r | Fails nat | Hangs

record response =
  ok :: bool
  json :: "jsvalue option"

type_synonym network = "string \<Rightarrow> response fetch_behaviour"

text \<open>
  The timer that \<open>setTimeout\<close> scheduled, as it stands when the call settles:
  still scheduled with its delay, cleared by \<open>clearTimeout\<close>, or already run.
\<close>

datatype timer = Pending nat | Cleared | Fired

text \<open>
  \<open>fetchWithTimeout(resource, options)\<close>. The option \<open>timeout\<close> is \<open>None\<close> when
  the caller omits it. The timer runs \<open>controller.abort()\<close> once its delay has passed
  (an event at the very instant of the delay counts as late);
  \<open>clearTimeout\<close> is reached only when the \<open>await\<close> returns a response.

  The timeout goes to \<open>setTimeout\<close> as it is, and the delay of a timer is a 32-bit
  signed number of milliseconds: a timeout below \<open>2^31\<close> is the delay, a larger one
  does not fit and the timer runs at once, after 1 ms.
\<close>

definition timer_delay :: "nat \<Rightarrow> nat" where
  "timer_delay timeout = (if timeout < 2147483648 then timeout else 1)"

definition fetchWithTimeout :: "network \<Rightarrow> string \<Rightarrow> nat option \<Rightarrow> (exn + response) \<times> timer" where
  "fetchWithTimeout net resource options =
     (let timeout = (case options of None \<Rightarrow> 5000 | Some t \<Rightarrow> t);
          delay = timer_delay timeout in
      case net resource of
        Responds t r \<Rightarrow> if t < delay then (Inr r, Cleared) else (Inl AbortError, Fired)
      | Fails t \<Rightarrow> if t < delay then (Inl NetworkError, Pending delay) else (Inl AbortError, Fired)
      | Hangs \<Rightarrow> (Inl AbortError, Fired))"

section \<open>IP info resolver\<close>

record IpInfo =
  ip :: jsvalue
  city :: jsvalue
  region :: jsvalue
  country :: jsvalue
  org :: jsvalue

definition msg_unknown :: jstring where
  "msg_unknown = [0x672A, 0x77E5]"

definition msg_unavailable :: jstring where
  "msg_unavailable = [0x65E0, 0x6CD5, 0x83B7, 0x53D6, 0x7F51, 0x7EDC, 0x4FE1, 0x606F]"

definition url_dbip :: string where
  "url_dbip = ''https://api.db-ip.com/v2/free/self''"

definition url_ipapi :: string where
  "url_ipapi = ''https://ipapi.co/json/''"

definition url_ipify :: string where
  "url_ipify = ''https://api.ipify.org?format=json''"

text \<open>\<open>await response.json()\<close>: a body that is not JSON rejects with a SyntaxError.\<close>

definition read_json :: "response \<Rightarrow> exn + jsvalue" where
  "read_json r = (case json r of None \<Rightarrow> Inl SyntaxError | Some v \<Rightarrow> Inr v)"

text \<open>The three object literals of \<open>fetchIpInfo\<close>, one for each provider.\<close>

definition normalize_dbip :: "jsvalue \<Rightarrow> exn + IpInfo" where
  "normalize_dbip data =
     (case get_prop data (ascii ''ipAddress'') of Inl e \<Rightarrow> Inl e | Inr a \<Rightarrow>
     (case get_prop data (ascii ''city'') of Inl e \<Rightarrow> Inl e | Inr c \<Rightarrow>
     (case get_prop data (ascii ''regionName'') of Inl e \<Rightarrow> Inl e | Inr r \<Rightarrow>
     (case get_prop data (ascii ''countryName'') of Inl e \<Rightarrow> Inl e | Inr n \<Rightarrow>
        Inr \<lparr>ip = js_or a (String msg_unknown),
             city = js_or c (String []),
             region = js_or r (String []),
             country = js_or n (String []),
             org = String (ascii ''Unknown Provider'')\<rparr>))))"

definition normalize_ipapi :: "jsvalue \<Rightarrow> exn + IpInfo" where
  "normalize_ipapi data =
     (case get_prop data (ascii ''ip'') of Inl e \<Rightarrow> Inl e | Inr a \<Rightarrow>
     (case get_prop data (ascii ''city'') of Inl e \<Rightarrow> Inl e | Inr c \<Rightarrow>
     (case get_prop data (ascii ''region'') of Inl e \<Rightarrow> Inl e | Inr r \<Rightarrow>
     (case get_prop data (ascii ''country_name'') of Inl e \<Rightarrow> Inl e | Inr n \<Rightarrow>
     (case get_prop data (ascii ''org'') of Inl e \<Rightarrow> Inl e | Inr g \<Rightarrow>
     (case (if truthy g then Inr g else get_prop data (ascii ''asn'')) of
        Inl e \<Rightarrow> Inl e
      | Inr g' \<Rightarrow> Inr \<lparr>ip = a, city = c, region = r, country = n, org = g'\<rparr>))))))"

definition normalize_ipify :: "jsvalue \<Rightarrow> exn + IpInfo" where
  "normalize_ipify ipData =
     (case get_prop ipData (ascii ''ip'') of Inl e \<Rightarrow> Inl e | Inr a \<Rightarrow>
        Inr \<lparr>ip = a, city = String [], region = String [], country = String [],
             org = String []\<rparr>)"

text \<open>The three \<open>try\<close> blocks. Only the first two test \<open>response.ok\<close>.\<close>

definition try_dbip :: "network \<Rightarrow> exn + IpInfo" where
  "try_dbip net =
     (case fst (fetchWithTimeout net url_dbip (Some 5000)) of
        Inl e \<Rightarrow> Inl e
      | Inr response \<Rightarrow>
          if \<not> ok response then Inl (Error (ascii ''Network response was not ok''))
          else (case read_json response of Inl e \<Rightarrow> Inl e | Inr data \<Rightarrow> normalize_dbip data))"

definition try_ipapi :: "network \<Rightarrow> exn + IpInfo" where
  "try_ipapi net =
     (case fst (fetchWithTimeout net url_ipapi (Some 5000)) of
        Inl e \<Rightarrow> Inl e
      | Inr fallback \<Rightarrow>
          if \<not> ok fallback then Inl (Error (ascii ''Fallback failed''))
          else (case read_json fallback of Inl e \<Rightarrow> Inl e | Inr data \<Rightarrow> normalize_ipapi data))"

definition try_ipify :: "network \<Rightarrow> exn + IpInfo" where
  "try_ipify net =
     (case fst (fetchWithTimeout net url_ipify (Some 3000)) of
        Inl e \<Rightarrow> Inl e
      | Inr ipOnly \<Rightarrow>
          (case read_json ipOnly of Inl e \<Rightarrow> Inl e | Inr ipData \<Rightarrow> normalize_ipify ipData))"

definition fetchIpInfo :: "network \<Rightarrow> exn + IpInfo" where
  "fetchIpInfo net =
     (case try_dbip net of
        Inr info \<Rightarrow> Inr info
      | Inl error \<Rightarrow>
          (case try_ipapi net of
             Inr info \<Rightarrow> Inr info
           | Inl e \<Rightarrow>
               (case try_ipify net of
                  Inr info \<Rightarrow> Inr info
                | Inl finalErr \<Rightarrow> Inl (Error msg_unavailable))))"

text \<open>
  A provider's failure in the specification's words: a non-success HTTP status, a parse
  failure, a timeout or a network error. This predicate follows the specification, not the
  code, and is what the resolver is compared with.
\<close>

definition spec_provider_fails :: "network \<Rightarrow> string \<Rightarrow> nat \<Rightarrow> bool" where
  "spec_provider_fails net url bound =
     (case net url of
        Responds t r \<Rightarrow> \<not> (t < bound \<and> ok r \<and> json r \<noteq> None)
      | Fails t \<Rightarrow> True
      | Hangs \<Rightarrow> True)"

section \<open>Location orchestrator\<close>

record GpsCoordinates =
  latitude :: real
  longitude :: real
  accuracy :: real
  timestamp :: nat

record AddressInfo =
  formattedAddress :: jstring
  poiName :: "jstring option"

datatype LocationStatus = IDLE | LOADING | SUCCESS | ERROR | DENIED

record coords =
  lat :: real
  lng :: real

text \<open>
  The component: its five state variables and its two refs. \<open>resolveCalls\<close> is not a
  variable of the source: it logs, in order, the arguments of every call of
  \<open>resolveAddressWithGemini\<close>.
\<close>

record app =
  ipData :: "IpInfo option"
  gpsData :: "GpsCoordinates option"
  addressData :: "AddressInfo option"
  status :: LocationStatus
  errorMsg :: jstring
  lastResolvedCoords :: "coords option"
  isMounted :: bool
  resolveCalls :: "coords list"

definition initial :: app where
  "initial = \<lparr>ipData = None, gpsData = None, addressData = None, status = IDLE,
              errorMsg = [], lastResolvedCoords = None, isMounted = True,
              resolveCalls = []\<rparr>"

definition msg_permission :: jstring where
  "msg_permission = [0x8BF7, 0x5141, 0x8BB8, 0x6D4F, 0x89C8, 0x5668, 0x83B7, 0x53D6,
                     0x60A8, 0x7684, 0x4F4D, 0x7F6E, 0x6743, 0x9650]"

definition msg_weak :: jstring where
  "msg_weak = [0x47, 0x50, 0x53, 0x20, 0x4FE1, 0x53F7, 0x5F31, 0xFF0C, 0x65E0, 0x6CD5,
               0x83B7, 0x53D6, 0x4F4D, 0x7F6E]"

definition msg_timeout :: jstring where
  "msg_timeout = [0x5B9A, 0x4F4D, 0x8BF7, 0x6C42, 0x8D85, 0x65F6]"

definition msg_unsupported :: jstring where
  "msg_unsupported = [0x60A8, 0x7684, 0x6D4F, 0x89C8, 0x5668, 0x4E0D, 0x652F, 0x6301,
                      0x5B9A, 0x4F4D, 0x529F, 0x80FD]"

definition msg_unparsed :: jstring where
  "msg_unparsed = [0x65E0, 0x6CD5, 0x89E3, 0x6790, 0x8BE6, 0x7EC6, 0x5730, 0x5740]"

definition msg_grounding :: jstring where
  "msg_grounding = [0x5730, 0x5740, 0x89E3, 0x6790, 0x8D85, 0x65F6, 0x6216, 0x5931, 0x8D25]"

text \<open>The cleanup of the first effect: the component is torn down.\<close>

definition unmount :: "app \<Rightarrow> app" where
  "unmount s = s\<lparr>isMounted := False\<rparr>"

text \<open>
  The synchronous part of \<open>loadLocationData\<close>. \<open>geolocation\<close> tells whether
  \<open>navigator.geolocation\<close> exists. The IP request and the position request that it
  starts complete later, through the handlers below.
\<close>

definition loadLocationData :: "bool \<Rightarrow> app \<Rightarrow> app" where
  "loadLocationData geolocation s =
     (if \<not> isMounted s then s
      else
        let s1 = s\<lparr>status := LOADING, errorMsg := [], addressData := None,
                    lastResolvedCoords := None\<rparr>
        in if \<not> geolocation then s1\<lparr>status := ERROR, errorMsg := msg_unsupported\<rparr>
           else s1)"

text \<open>The two continuations of \<open>fetchIpInfo()\<close>.\<close>

definition ip_then :: "IpInfo \<Rightarrow> app \<Rightarrow> app" where
  "ip_then data s = (if isMounted s then s\<lparr>ipData := Some data\<rparr> else s)"

definition ip_catch :: "exn \<Rightarrow> app \<Rightarrow> app" where
  "ip_catch e s = s"

text \<open>
  The two callbacks of \<open>getCurrentPosition\<close>. A position is given by the four
  values the success callback reads from it. In the error callback the initial value of
  \<open>msg\<close> is overwritten by every branch of the \<open>switch\<close>, whose cases compare
  with \<open>===\<close>.
\<close>

record GeolocationPositionError =
  code :: nat
  message :: jstring

definition geo_success :: "GpsCoordinates \<Rightarrow> app \<Rightarrow> app" where
  "geo_success position s =
     (if \<not> isMounted s then s
      else s\<lparr>gpsData := Some \<lparr>latitude = latitude position, longitude = longitude position,
                               accuracy = accuracy position,
                               timestamp = timestamp position\<rparr>\<rparr>)"

definition geo_error :: "GeolocationPositionError \<Rightarrow> app \<Rightarrow> app" where
  "geo_error error s =
     (if \<not> isMounted s then s
      else
        let msg = (if code error = 1 then msg_permission
                   else if code error = 2 then msg_weak
                   else if code error = 3 then msg_timeout
                   else message error)
        in s\<lparr>status := DENIED, errorMsg := msg\<rparr>)"

text \<open>
  \<open>resolveAddressWithGemini\<close> runs in two parts: up to its \<open>await\<close> it records the
  coordinates and sends the grounding request, and after it the outcome is handled. The
  outcome is the text of the response (\<open>None\<close> when the response has none) or an
  exception, also one thrown while the request was built.
\<close>

datatype grounding = Answered "jstring option" | Threw

definition resolve_begin :: "real \<Rightarrow> real \<Rightarrow> app \<Rightarrow> app" where
  "resolve_begin la lo s =
     s\<lparr>lastResolvedCoords := Some \<lparr>lat = la, lng = lo\<rparr>,
       resolveCalls := resolveCalls s @ [\<lparr>lat = la, lng = lo\<rparr>]\<rparr>"

text \<open>\<open>String.prototype.trim\<close>: white space and line terminators of ECMAScript.\<close>

definition is_white :: "nat \<Rightarrow> bool" where
  "is_white c =
     (c \<in> {0x09, 0x0A, 0x0B, 0x0C, 0x0D, 0x20, 0xA0, 0x1680, 0x2028, 0x2029, 0x202F,
            0x205F, 0x3000, 0xFEFF}
      \<or> (0x2000 \<le> c \<and> c \<le> 0x200A))"

definition trim :: "jstring \<Rightarrow> jstring" where
  "trim s = rev (dropWhile is_white (rev (dropWhile is_white s)))"

definition resolve_end :: "grounding \<Rightarrow> app \<Rightarrow> app" where
  "resolve_end outcome s =
     (case outcome of
        Answered resultText \<Rightarrow>
          if \<not> isMounted s then s
          else (case resultText of
                  Some t \<Rightarrow>
                    if t \<noteq> []
                    then s\<lparr>addressData := Some \<lparr>formattedAddress = trim t,
                                                  poiName = Some (ascii ''Google Maps Data'')\<rparr>,
                            status := SUCCESS\<rparr>
                    else s\<lparr>status := SUCCESS,
                            addressData := Some \<lparr>formattedAddress = msg_unparsed,
                                                  poiName = Some []\<rparr>\<rparr>
                | None \<Rightarrow>
                    s\<lparr>status := SUCCESS,
                      addressData := Some \<lparr>formattedAddress = msg_unparsed,
                                            poiName = Some []\<rparr>\<rparr>)
      | Threw \<Rightarrow>
          if isMounted s
          then s\<lparr>status := SUCCESS,
                  addressData := Some \<lparr>formattedAddress = msg_grounding,
                                        poiName = Some []\<rparr>\<rparr>
          else s)"

text \<open>The effect that depends on \<open>gpsData\<close>.\<close>

definition gpsData_effect :: "app \<Rightarrow> app" where
  "gpsData_effect s =
     (case gpsData s of
        None \<Rightarrow> s
      | Some g \<Rightarrow>
          (case lastResolvedCoords s of
             None \<Rightarrow> resolve_begin (latitude g) (longitude g) s
           | Some c \<Rightarrow>
               if lat c = latitude g \<and> lng c = longitude g then s
               else resolve_begin (latitude g) (longitude g) s))"

text \<open>
  A fix is delivered: the success callback stores it, and since it stores a new object
  the component renders again and the effect runs, before the next event is handled.
\<close>

definition deliver_fix :: "GpsCoordinates \<Rightarrow> app \<Rightarrow> app" where
  "deliver_fix position s =
     (if isMounted s then gpsData_effect (geo_success position s) else geo_success position s)"

fun deliver_fixes :: "GpsCoordinates list \<Rightarrow> app \<Rightarrow> app" where
  "deliver_fixes [] s = s"
| "deliver_fixes (p # ps) s = deliver_fixes ps (deliver_fix p s)"

definition pair_of :: "GpsCoordinates \<Rightarrow> coords" where
  "pair_of g = \<lparr>lat = latitude g, lng = longitude g\<rparr>"

text \<open>The asynchronous completions that can reach the component.\<close>

datatype completion =
    IpResolved IpInfo
  | IpFailed exn
  | PositionFound GpsCoordinates
  | PositionFailed GeolocationPositionError
  | GroundingDone grounding

fun on_completion :: "completion \<Rightarrow> app \<Rightarrow> app" where
  "on_completion (IpResolved data) s = ip_then data s"
| "on_completion (IpFailed e) s = ip_catch e s"
| "on_completion (PositionFound p) s = deliver_fix p s"
| "on_completion (PositionFailed e) s = geo_error e s"
| "on_completion (GroundingDone outcome) s = resolve_end outcome s"

fun complete_all :: "completion list \<Rightarrow> app \<Rightarrow> app" where
  "complete_all [] s = s"
| "complete_all (e # es) s = complete_all es (on_completion e s)"

section \<open>Concrete inputs\<close>

text \<open>Every provider answers HTTP 500 with a JSON error body.\<close>

definition net_all_500 :: network where
  "net_all_500 = (\<lambda>url. Responds 100 \<lparr>ok = False,
       json = Some (Object [(ascii ''error'', String (ascii ''Internal Server Error''))])\<rparr>)"

text \<open>Every request fails at the network level after 10 ms.\<close>

definition net_refused :: network where
  "net_refused = (\<lambda>url. Fails 10)"

text \<open>Every response takes 6000 ms.\<close>

definition net_slow :: network where
  "net_slow = (\<lambda>url. Responds 6000 \<lparr>ok = True, json = Some (Object [])\<rparr>)"

text \<open>Every provider answers HTTP 200 with the empty object.\<close>

definition net_empty_object :: network where
  "net_empty_object = (\<lambda>url. Responds 100 \<lparr>ok = True, json = Some (Object [])\<rparr>)"


text \<open>
  The first provider is unreachable and the second answers HTTP 200 with the empty
  object.
\<close>

definition net_ipapi_empty :: network where
  "net_ipapi_empty =
     (\<lambda>url. if url = url_ipapi then Responds 100 \<lparr>ok = True, json = Some (Object [])\<rparr>
            else Fails 10)"



definition fixA :: GpsCoordinates where
  "fixA = \<lparr>latitude = 31.2304, longitude = 121.4737, accuracy = 20, timestamp = 1000\<rparr>"

definition fixB :: GpsCoordinates where
  "fixB = \<lparr>latitude = 39.9042, longitude = 116.4074, accuracy = 15, timestamp = 2000\<rparr>"


section \<open>The fetcher\<close>

lemma fetchWithTimeout_cleared:
  "fst (fetchWithTimeout net url options) = Inr r \<Longrightarrow>
   snd (fetchWithTimeout net url options) = Cleared"
  by (auto simp add: fetchWithTimeout_def timer_delay_def Let_def split: fetch_behaviour.splits if_splits)

text \<open>
  C2. The claim: the timer is cleared on the success path and on the failure path, so no
  timeout callback is pending once the call has completed. The code clears the timer after
  the \<open>await\<close> only: when the request fails by itself after 10 ms, the call rejects
  and its timer of 5000 ms is still scheduled.
\<close>

theorem fetchWithTimeout_timer_pending_after_failure:
  "fetchWithTimeout net_refused url_dbip (Some 5000) = (Inl NetworkError, Pending 5000)"
  by (simp add: fetchWithTimeout_def timer_delay_def net_refused_def)

text \<open>
  C6, as stated: for every call, a response that arrives within the configured bound is
  returned. It fails for a bound that the timer cannot hold: with a timeout of \<open>2^31\<close>
  ms the response that arrives after 100 ms is well within the bound, yet the timer has
  run by then and the call rejects with the abort.
\<close>

theorem fetchWithTimeout_large_bound_counterexample:
  "net_empty_object url_dbip = Responds 100 \<lparr>ok = True, json = Some (Object [])\<rparr>
   \<and> (100 :: nat) < 2147483648
   \<and> fst (fetchWithTimeout net_empty_object url_dbip (Some 2147483648)) = Inl AbortError"
  by (simp add: fetchWithTimeout_def timer_delay_def net_empty_object_def)

text \<open>
  C6, amended. With the option omitted the bound is 5000 ms. For a bound below \<open>2^31\<close>
  ms, a response that arrives within the bound is returned as it is; when the bound passes
  first, or nothing ever arrives, the call rejects with the abort; a request that fails by
  itself rejects too. The call settles in every case.
\<close>

theorem fetchWithTimeout_bound:
  assumes "options = None \<and> bound = 5000 \<or> options = Some bound"
    and "bound < 2147483648"
  shows "(net url = Responds t r \<and> t < bound \<longrightarrow>
            fst (fetchWithTimeout net url options) = Inr r)
       \<and> (net url = Responds t r \<and> bound < t \<longrightarrow>
            fst (fetchWithTimeout net url options) = Inl AbortError)
       \<and> (net url = Hangs \<longrightarrow> fst (fetchWithTimeout net url options) = Inl AbortError)
       \<and> (net url = Fails t \<longrightarrow> (\<exists>e. fst (fetchWithTimeout net url options) = Inl e))"
  using assms by (auto simp add: fetchWithTimeout_def timer_delay_def)

theorem fetchWithTimeout_bound_witness:
  "fst (fetchWithTimeout net_slow url_dbip None) = Inl AbortError
   \<and> fst (fetchWithTimeout net_empty_object url_dbip None)
       = Inr \<lparr>ok = True, json = Some (Object [])\<rparr>
   \<and> fst (fetchWithTimeout (\<lambda>u. Hangs) url_ipify (Some 3000)) = Inl AbortError
   \<and> (\<exists>e. fst (fetchWithTimeout net_refused url_ipify (Some 3000)) = Inl e)"
  using
    fetchWithTimeout_bound [of None 5000 net_slow url_dbip 6000
      "\<lparr>ok = True, json = Some (Object [])\<rparr>"]
    fetchWithTimeout_bound [of None 5000 net_empty_object url_dbip 100
      "\<lparr>ok = True, json = Some (Object [])\<rparr>"]
    fetchWithTimeout_bound [of "Some 3000" 3000 "\<lambda>u. Hangs" url_ipify]
    fetchWithTimeout_bound [of "Some 3000" 3000 net_refused url_ipify 10]
  by (simp add: net_slow_def net_empty_object_def net_refused_def)

lemma fetchWithTimeout_settles:
  "(\<exists>e. fst (fetchWithTimeout net url options) = Inl e)
   \<or> (\<exists>r. fst (fetchWithTimeout net url options) = Inr r)"
  by (cases "fst (fetchWithTimeout net url options)") simp_all

section \<open>The resolver\<close>

text \<open>The cascade: the first attempt that yields a record decides the result.\<close>

lemma fetchIpInfo_cascade:
  "fetchIpInfo net =
     (case try_dbip net of Inr a \<Rightarrow> Inr a | Inl x \<Rightarrow>
     (case try_ipapi net of Inr b \<Rightarrow> Inr b | Inl y \<Rightarrow>
     (case try_ipify net of Inr c \<Rightarrow> Inr c | Inl z \<Rightarrow> Inl (Error msg_unavailable))))"
  by (simp add: fetchIpInfo_def)

lemma fetchIpInfo_error:
  "fetchIpInfo net = Inl e \<Longrightarrow> e = Error msg_unavailable"
  by (auto simp add: fetchIpInfo_def split: sum.splits)

lemma fetchIpInfo_result_source:
  assumes "fetchIpInfo net = Inr info"
  shows "(\<exists>d. normalize_dbip d = Inr info) \<or> (\<exists>d. normalize_ipapi d = Inr info)
       \<or> (\<exists>d. normalize_ipify d = Inr info)"
proof -
  from assms consider "try_dbip net = Inr info" | "try_ipapi net = Inr info"
    | "try_ipify net = Inr info"
    by (auto simp add: fetchIpInfo_def split: sum.splits)
  then show ?thesis
  proof cases
    case 1
    then show ?thesis
      by (auto simp add: try_dbip_def split: sum.splits if_splits)
  next
    case 2
    then show ?thesis
      by (auto simp add: try_ipapi_def split: sum.splits if_splits)
  next
    case 3
    then show ?thesis
      by (auto simp add: try_ipify_def split: sum.splits)
  qed
qed

text \<open>
  C1. The claim: the resolver throws its terminal error exactly when all three providers
  fail. When every provider answers HTTP 500 with a JSON body, each of them has failed
  (a non-success status), yet the third attempt does not test the status and the resolver
  returns a record whose \<open>ip\<close> is \<open>undefined\<close>.
\<close>

theorem fetchIpInfo_all_providers_http_500:
  "spec_provider_fails net_all_500 url_dbip 5000
   \<and> spec_provider_fails net_all_500 url_ipapi 5000
   \<and> spec_provider_fails net_all_500 url_ipify 3000
   \<and> fetchIpInfo net_all_500 =
       Inr \<lparr>ip = Undefined, city = String [], region = String [], country = String [],
            org = String []\<rparr>"
  by (simp add: spec_provider_fails_def fetchIpInfo_def try_dbip_def try_ipapi_def
      try_ipify_def fetchWithTimeout_def timer_delay_def net_all_500_def read_json_def normalize_ipify_def
      ascii_def)

subsection \<open>Normalization\<close>


lemma normalize_dbip_total:
  assumes "data \<noteq> Null" and "data \<noteq> Undefined"
  shows "\<exists>info. normalize_dbip data = Inr info"
  using assms by (cases data) (simp_all add: normalize_dbip_def)



text \<open>
  The second provider's record copies the attributes of the payload and has no default:
  from the empty object every field is \<open>undefined\<close>.
\<close>

lemma ipapi_empty_object_undefined:
  "fetchIpInfo net_ipapi_empty =
     Inr \<lparr>ip = Undefined, city = Undefined, region = Undefined, country = Undefined,
          org = Undefined\<rparr>"
  by (simp add: fetchIpInfo_def try_dbip_def try_ipapi_def fetchWithTimeout_def
      timer_delay_def net_ipapi_empty_def url_dbip_def url_ipapi_def read_json_def
      normalize_ipapi_def)




section \<open>The orchestrator\<close>

subsection \<open>Deduplication of address resolution\<close>

lemma deliver_fix_mounted: "isMounted (deliver_fix p s) = isMounted s"
  by (simp add: deliver_fix_def geo_success_def gpsData_effect_def resolve_begin_def
      split: option.splits)

lemma deliver_fix_guard:
  "isMounted s \<Longrightarrow> lastResolvedCoords (deliver_fix p s) = Some (pair_of p)"
  by (simp add: deliver_fix_def geo_success_def gpsData_effect_def resolve_begin_def
      pair_of_def split: option.splits)

lemma deliver_fix_calls:
  "isMounted s \<Longrightarrow> resolveCalls (deliver_fix p s) =
     (if lastResolvedCoords s = Some (pair_of p) then resolveCalls s
      else resolveCalls s @ [pair_of p])"
  by (cases "lastResolvedCoords s")
     (auto simp add: deliver_fix_def geo_success_def gpsData_effect_def resolve_begin_def
       pair_of_def)

lemma deliver_fixes_calls:
  "isMounted s \<Longrightarrow> resolveCalls (deliver_fixes ps s) =
     resolveCalls s @ (case lastResolvedCoords s of
                         None \<Rightarrow> remdups_adj (map pair_of ps)
                       | Some c \<Rightarrow> tl (remdups_adj (c # map pair_of ps)))"
proof (induction ps arbitrary: s)
  case Nil
  then show ?case by (simp split: option.splits)
next
  case (Cons p ps)
  have m: "isMounted (deliver_fix p s)" using Cons.prems by (simp add: deliver_fix_mounted)
  show ?case
    using Cons.IH [OF m] Cons.prems
    by (auto simp add: deliver_fix_guard deliver_fix_calls split: option.splits)
qed

text \<open>
  C3, as stated: resolution is triggered exactly once for each distinct pair of a sequence
  of fixes. It fails in two ways. The guard holds one pair, so of the fixes A, B, A all
  three are resolved although only two pairs are distinct; and a refresh clears the guard,
  so the same fix delivered in two load cycles is resolved twice.
\<close>

theorem once_per_distinct_pair_counterexample:
  "length (resolveCalls (deliver_fixes [fixA, fixB, fixA] (loadLocationData True initial))) = 3
   \<and> length (remdups (map pair_of [fixA, fixB, fixA])) = 2
   \<and> length (resolveCalls (deliver_fix fixA (loadLocationData True
        (deliver_fix fixA (loadLocationData True initial))))) = 2
   \<and> length (remdups (map pair_of [fixA, fixA])) = 1"
  by (simp add: initial_def loadLocationData_def deliver_fix_def geo_success_def
      gpsData_effect_def resolve_begin_def pair_of_def fixA_def fixB_def)

text \<open>
  C3, amended. Within one load cycle of a mounted component, a fix triggers resolution
  exactly when its pair differs, in latitude or in longitude, from the pair of the fix
  before it: the calls are the pairs of the fixes with adjacent repetitions removed. The
  same coordinates passed twice give one call.
\<close>

theorem resolution_once_per_run:
  "isMounted s \<Longrightarrow>
   resolveCalls (deliver_fixes ps (loadLocationData g s))
     = resolveCalls s @ remdups_adj (map pair_of ps)"
proof -
  assume m: "isMounted s"
  have l: "isMounted (loadLocationData g s)"
    "lastResolvedCoords (loadLocationData g s) = None"
    "resolveCalls (loadLocationData g s) = resolveCalls s"
    using m by (simp_all add: loadLocationData_def Let_def)
  show ?thesis using deliver_fixes_calls [OF l(1)] l(2,3) by simp
qed

theorem resolution_once_per_run_witness:
  "isMounted initial
   \<and> resolveCalls (deliver_fixes [fixA, fixA] (loadLocationData True initial))
       = [pair_of fixA]"
proof -
  have m: "isMounted initial" by (simp add: initial_def)
  show ?thesis
    using resolution_once_per_run [OF m, of "[fixA, fixA]" True] m
    by (simp add: initial_def)
qed

subsection \<open>The guard holds the last attempt\<close>

lemma guard_kept:
  assumes "lastResolvedCoords s = Some c"
    and "\<forall>e\<in>set es. \<forall>q. e = PositionFound q \<longrightarrow> pair_of q = c"
  shows "lastResolvedCoords (complete_all es s) = Some c
       \<and> resolveCalls (complete_all es s) = resolveCalls s"
  using assms
proof (induction es arbitrary: s)
  case Nil
  then show ?case by simp
next
  case (Cons e es)
  have "lastResolvedCoords (on_completion e s) = Some c
      \<and> resolveCalls (on_completion e s) = resolveCalls s"
  proof (cases e)
    case (PositionFound q)
    with Cons.prems have "pair_of q = c" by simp
    with Cons.prems(1) PositionFound show ?thesis
      by (auto simp add: deliver_fix_def geo_success_def gpsData_effect_def pair_of_def)
  next
    case (GroundingDone outcome)
    with Cons.prems(1) show ?thesis
      by (simp add: resolve_end_def split: grounding.splits option.splits)
  qed (use Cons.prems(1) in \<open>simp_all add: ip_then_def ip_catch_def geo_error_def Let_def\<close>)
  with Cons.IH [of "on_completion e s"] Cons.prems(2) show ?case by simp
qed

text \<open>
  C9, as stated: within one load cycle a pair whose resolution failed is never attempted
  again when the same coordinates arrive again. It fails when another pair arrives in
  between: the resolution of A fails, B is resolved and replaces A in the guard, and A,
  arriving again, is resolved a second time.
\<close>

theorem reattempt_after_other_pair_counterexample:
  "map_option formattedAddress
     (addressData (resolve_end Threw (deliver_fix fixA (loadLocationData True initial))))
     = Some msg_grounding
   \<and> resolveCalls
       (deliver_fix fixA (deliver_fix fixB
          (resolve_end Threw (deliver_fix fixA (loadLocationData True initial)))))
     = [\<lparr>lat = 31.2304, lng = 121.4737\<rparr>, \<lparr>lat = 39.9042, lng = 116.4074\<rparr>,
        \<lparr>lat = 31.2304, lng = 121.4737\<rparr>]"
  by (simp add: initial_def loadLocationData_def deliver_fix_def geo_success_def
      gpsData_effect_def resolve_begin_def resolve_end_def fixA_def fixB_def)

text \<open>
  C9, amended. The pair is recorded when resolution starts, before the grounding request
  completes. Whatever completes afterwards (a grounding failure, an answer with no text,
  an IP result, a position error, the same coordinates again), as long as no fix with
  another pair arrives, the guard still holds the pair, and a fix with the same
  coordinates is not resolved again: the call that was made stays the only one.
\<close>

theorem guard_tracks_last_attempt:
  assumes "\<forall>e\<in>set es. \<forall>q. e = PositionFound q \<longrightarrow> pair_of q = \<lparr>lat = la, lng = lo\<rparr>"
    and "latitude p = la" and "longitude p = lo"
  shows "lastResolvedCoords (resolve_begin la lo s) = Some \<lparr>lat = la, lng = lo\<rparr>
     \<and> lastResolvedCoords (complete_all es (resolve_begin la lo s))
         = Some \<lparr>lat = la, lng = lo\<rparr>
     \<and> resolveCalls (deliver_fix p (complete_all es (resolve_begin la lo s)))
         = resolveCalls s @ [\<lparr>lat = la, lng = lo\<rparr>]"
proof -
  let ?c = "\<lparr>lat = la, lng = lo\<rparr>"
  let ?s = "complete_all es (resolve_begin la lo s)"
  have g: "lastResolvedCoords (resolve_begin la lo s) = Some ?c"
    by (simp add: resolve_begin_def)
  from guard_kept [OF g assms(1)]
  have k: "lastResolvedCoords ?s = Some ?c" "resolveCalls ?s = resolveCalls s @ [?c]"
    by (simp_all add: resolve_begin_def)
  have "resolveCalls (deliver_fix p ?s) = resolveCalls ?s"
    using k(1) assms(2,3)
    by (simp add: deliver_fix_def geo_success_def gpsData_effect_def)
  with g k show ?thesis by simp
qed

theorem guard_tracks_last_attempt_witness:
  "resolveCalls (deliver_fix fixA
     (complete_all [GroundingDone Threw, GroundingDone (Answered None)]
        (resolve_begin 31.2304 121.4737 (loadLocationData True initial))))
   = [\<lparr>lat = 31.2304, lng = 121.4737\<rparr>]"
  using guard_tracks_last_attempt
    [of "[GroundingDone Threw, GroundingDone (Answered None)]" "31.2304" "121.4737" fixA
      "loadLocationData True initial"]
  by (simp add: fixA_def initial_def loadLocationData_def)

subsection \<open>Outcomes of address resolution and of positioning\<close>

text \<open>
  C4. When the grounding call completes on a mounted component, the status becomes
  SUCCESS and the address is set: to the trimmed text when the response has a non-empty
  text, to the placeholder U+65E0 U+6CD5 U+89E3 U+6790 U+8BE6 U+7EC6 U+5730 U+5740 when
  it has none, and to the placeholder of \<open>msg_grounding\<close> when the call threw.
\<close>

theorem resolve_end_always_success:
  assumes "isMounted s"
  shows "status (resolve_end outcome s) = SUCCESS
     \<and> (\<exists>a. addressData (resolve_end outcome s) = Some a
          \<and> (outcome = Threw \<and> formattedAddress a = msg_grounding
             \<or> (outcome = Answered None \<or> outcome = Answered (Some []))
                 \<and> formattedAddress a = msg_unparsed
             \<or> (\<exists>t. outcome = Answered (Some t) \<and> t \<noteq> []
                 \<and> formattedAddress a = trim t)))"
  using assms by (auto simp add: resolve_end_def split: grounding.splits option.splits)

theorem resolve_end_always_success_witness:
  "isMounted initial
   \<and> status (resolve_end Threw initial) = SUCCESS
   \<and> map_option formattedAddress (addressData (resolve_end Threw initial))
       = Some msg_grounding
   \<and> status (resolve_end (Answered None) initial) = SUCCESS
   \<and> map_option formattedAddress (addressData (resolve_end (Answered None) initial))
       = Some msg_unparsed
   \<and> status (resolve_end (Answered (Some (ascii '' Shanghai ''))) initial) = SUCCESS
   \<and> map_option formattedAddress
        (addressData (resolve_end (Answered (Some (ascii '' Shanghai ''))) initial))
       = Some (ascii ''Shanghai'')"
proof -
  have m: "isMounted initial" by (simp add: initial_def)
  show ?thesis
    using resolve_end_always_success [OF m, of Threw]
      resolve_end_always_success [OF m, of "Answered None"]
      resolve_end_always_success [OF m, of "Answered (Some (ascii '' Shanghai ''))"] m
    by (auto simp add: ascii_def trim_def is_white_def)
qed

text \<open>
  C5. A geolocation failure delivered to a mounted component sets the status to DENIED
  and the message by the error's code: 1, 2 and 3 give the three fixed messages, any
  other code gives the platform's message unchanged.
\<close>

theorem geo_error_message_by_code:
  assumes "isMounted s"
  shows "status (geo_error e s) = DENIED
     \<and> (code e = 1 \<longrightarrow> errorMsg (geo_error e s) = msg_permission)
     \<and> (code e = 2 \<longrightarrow> errorMsg (geo_error e s) = msg_weak)
     \<and> (code e = 3 \<longrightarrow> errorMsg (geo_error e s) = msg_timeout)
     \<and> (code e \<noteq> 1 \<and> code e \<noteq> 2 \<and> code e \<noteq> 3 \<longrightarrow>
          errorMsg (geo_error e s) = message e)"
  using assms by (simp add: geo_error_def Let_def)

theorem geo_error_message_by_code_witness:
  "isMounted initial
   \<and> status (geo_error \<lparr>code = 1, message = ascii ''User denied Geolocation''\<rparr> initial)
       = DENIED
   \<and> errorMsg (geo_error \<lparr>code = 1, message = ascii ''User denied Geolocation''\<rparr> initial)
       = msg_permission
   \<and> errorMsg (geo_error \<lparr>code = 2, message = ascii ''Position unavailable''\<rparr> initial)
       = msg_weak
   \<and> errorMsg (geo_error \<lparr>code = 3, message = ascii ''Timeout expired''\<rparr> initial)
       = msg_timeout
   \<and> errorMsg (geo_error \<lparr>code = 0, message = ascii ''Unknown error''\<rparr> initial)
       = ascii ''Unknown error''"
proof -
  have m: "isMounted initial" by (simp add: initial_def)
  show ?thesis
    using
      geo_error_message_by_code [OF m, of "\<lparr>code = 1, message = ascii ''User denied Geolocation''\<rparr>"]
      geo_error_message_by_code [OF m, of "\<lparr>code = 2, message = ascii ''Position unavailable''\<rparr>"]
      geo_error_message_by_code [OF m, of "\<lparr>code = 3, message = ascii ''Timeout expired''\<rparr>"]
      geo_error_message_by_code [OF m, of "\<lparr>code = 0, message = ascii ''Unknown error''\<rparr>"] m
    by simp
qed

subsection \<open>Teardown and refresh\<close>

text \<open>
  C8. Once the component is torn down, no asynchronous completion changes it: neither an
  IP result or failure, nor a position or a position error, nor the outcome of a
  grounding call, in any number and order.
\<close>

theorem no_mutation_after_unmount:
  "complete_all es (unmount s) = unmount s"
proof (induction es)
  case Nil
  show ?case by simp
next
  case (Cons e es)
  have "on_completion e (unmount s) = unmount s"
    by (cases e) (simp_all add: unmount_def ip_then_def ip_catch_def deliver_fix_def
        geo_success_def geo_error_def resolve_end_def split: grounding.splits)
  then show ?case using Cons.IH by simp
qed

theorem no_mutation_after_unmount_witness:
  "complete_all
     [IpResolved \<lparr>ip = String (ascii ''203.0.113.7''), city = String [], region = String [],
                  country = String [], org = String []\<rparr>,
      PositionFound fixA,
      PositionFailed \<lparr>code = 3, message = ascii ''Timeout expired''\<rparr>,
      GroundingDone (Answered (Some (ascii ''Shanghai''))),
      GroundingDone Threw]
     (unmount initial) = unmount initial"
  using no_mutation_after_unmount [of _ initial] by simp



end
